theory Spec2Isabelle
  imports Main "HOL-Library.Monad_Syntax" "HOL-Library.Sublist"
begin

section \<open>JavaScript values as the Codex plugin sees them\<close>

text \<open>
  The Codex plugin reads what \<^verbatim>\<open>JSON.parse\<close> returns and what property reads on it
  return, so a value is a JSON value or \<^verbatim>\<open>undefined\<close>. Numbers are IEEE doubles in the
  source; the plugin only tests them for truthiness and prints them, so the number type
  is a parameter \<open>'n\<close> and both operations come with the runtime below. Strings are
  lists of code units; \<open>char\<close> covers U+0000 to U+00FF.
\<close>

datatype 'n jsval =
    JUndefined
  | JNull
  | JBool bool
  | JNum 'n
  | JStr string
  | JArr "'n jsval list"
  | JObj "(string \<times> 'n jsval) list"

text \<open>
  The builtins of the JavaScript runtime that the plugin calls. \<open>JSON_parse\<close> returns
  \<open>None\<close> where \<^verbatim>\<open>JSON.parse\<close> throws a SyntaxError, \<open>JSON_stringify\<close> returns
  \<open>None\<close> where \<^verbatim>\<open>JSON.stringify\<close> throws. \<open>Number_isFalsy\<close> holds of \<open>0\<close>,
  \<open>-0\<close> and \<open>NaN\<close>; \<open>Number_toString\<close> is \<^verbatim>\<open>String(n)\<close>.
\<close>

record 'n js_runtime =
  JSON_parse :: "string \<Rightarrow> 'n jsval option"
  JSON_stringify :: "'n jsval \<Rightarrow> string option"
  Number_isFalsy :: "'n \<Rightarrow> bool"
  Number_toString :: "'n \<Rightarrow> string"

fun truthy :: "'n js_runtime \<Rightarrow> 'n jsval \<Rightarrow> bool" where
  "truthy R JUndefined = False"
| "truthy R JNull = False"
| "truthy R (JBool b) = b"
| "truthy R (JNum n) = (\<not> Number_isFalsy R n)"
| "truthy R (JStr s) = (s \<noteq> [])"
| "truthy R (JArr vs) = True"
| "truthy R (JObj kvs) = True"

text \<open>\<^verbatim>\<open>a || b\<close>: the left operand when it is truthy, the right one otherwise.\<close>

definition js_or :: "'n js_runtime \<Rightarrow> 'n jsval \<Rightarrow> 'n jsval \<Rightarrow> 'n jsval" where
  "js_or R a b = (if truthy R a then a else b)"

fun nullish :: "'n jsval \<Rightarrow> bool" where
  "nullish JUndefined = True"
| "nullish JNull = True"
| "nullish v = False"

text \<open>
  \<open>get v k\<close> is the property read \<^verbatim>\<open>v.k\<close> on a value that is neither \<^verbatim>\<open>null\<close> nor
  \<^verbatim>\<open>undefined\<close>, for the property names the plugin reads (type, message, role,
  content, text, name, function, input, arguments, function_call, is_error, error):
  none of them is defined on the prototype of a string, number, boolean, array or plain
  object, so only an own property of a parsed object answers. \<open>read_prop\<close> is the plain read,
  which throws a TypeError (\<open>None\<close>) on \<^verbatim>\<open>null\<close> and \<^verbatim>\<open>undefined\<close>; \<open>opt_prop\<close> is the
  optional chaining \<^verbatim>\<open>v?.k\<close>.
\<close>

fun get :: "'n jsval \<Rightarrow> string \<Rightarrow> 'n jsval" where
  "get (JObj kvs) k = (case map_of kvs k of None \<Rightarrow> JUndefined | Some v \<Rightarrow> v)"
| "get v k = JUndefined"

definition read_prop :: "'n jsval \<Rightarrow> string \<Rightarrow> 'n jsval option" where
  "read_prop v k = (if nullish v then None else Some (get v k))"

definition opt_prop :: "'n jsval \<Rightarrow> string \<Rightarrow> 'n jsval" where
  "opt_prop v k = (if nullish v then JUndefined else get v k)"

section \<open>The Codex plugin: one JSONL line to display events\<close>

datatype 'n AgentDisplayEvent =
    Text_event "'n jsval"
  | Tool_use_event "'n jsval" "'n jsval"
  | Tool_result_event
  | Error_event string

text \<open>\<^verbatim>\<open>extractErrorMessage(err)\<close>.\<close>

fun extractErrorMessage :: "'n js_runtime \<Rightarrow> 'n jsval \<Rightarrow> string" where
  "extractErrorMessage R err =
     (if \<not> truthy R err then ''''
      else (case err of
          JStr s \<Rightarrow> s
        | JBool b \<Rightarrow> (if b then ''true'' else ''false'')
        | JNum n \<Rightarrow> Number_toString R n
        | JUndefined \<Rightarrow> ''undefined''
        | JNull \<Rightarrow> ''null''
        | _ \<Rightarrow>
            (case get err ''message'' of
               JStr m \<Rightarrow> m
             | _ \<Rightarrow>
                (case get err ''error'' of
                   JStr e \<Rightarrow> e
                 | _ \<Rightarrow>
                    (case JSON_stringify R err of
                       Some s \<Rightarrow> s
                     | None \<Rightarrow> ''Unknown error'')))))"

text \<open>
  The tool name and input of a call record or content part:
  \<^verbatim>\<open>x.name || x.function?.name || 'unknown'\<close>.
\<close>

definition tool_name :: "'n js_runtime \<Rightarrow> 'n jsval \<Rightarrow> 'n jsval" where
  "tool_name R x =
     js_or R (js_or R (get x ''name'') (opt_prop (get x ''function'') ''name''))
       (JStr ''unknown'')"

text \<open>
  One element of a message's content array. \<open>None\<close> is the TypeError of
  \<^verbatim>\<open>part.type\<close> on a \<^verbatim>\<open>null\<close> element.
\<close>

definition part_events :: "'n js_runtime \<Rightarrow> 'n jsval \<Rightarrow> 'n AgentDisplayEvent list option" where
  "part_events R part =
     do {
       ty \<leftarrow> read_prop part ''type'';
       if ty = JStr ''text'' \<and> truthy R (get part ''text'')
       then Some [Text_event (get part ''text'')]
       else if ty = JStr ''tool_use'' \<or> ty = JStr ''function_call''
       then Some [Tool_use_event (tool_name R part)
                    (js_or R (get part ''input'')
                       (opt_prop (get part ''function'') ''arguments''))]
       else Some []
     }"

fun content_events :: "'n js_runtime \<Rightarrow> 'n jsval list \<Rightarrow> 'n AgentDisplayEvent list option" where
  "content_events R [] = Some []"
| "content_events R (part # parts) =
     do {
       evs \<leftarrow> part_events R part;
       rest \<leftarrow> content_events R parts;
       Some (evs @ rest)
     }"

text \<open>
  The branch conditions of \<^verbatim>\<open>parseCodexJsonLine\<close>, in the source's order, on a parsed
  record that is neither \<^verbatim>\<open>null\<close> nor \<^verbatim>\<open>undefined\<close>.
\<close>

definition is_message :: "'n js_runtime \<Rightarrow> 'n jsval \<Rightarrow> bool" where
  "is_message R event \<longleftrightarrow>
     get event ''type'' = JStr ''message'' \<or> truthy R (get event ''message'')"

definition is_function_call :: "'n js_runtime \<Rightarrow> 'n jsval \<Rightarrow> bool" where
  "is_function_call R event \<longleftrightarrow>
     get event ''type'' = JStr ''function_call'' \<or> truthy R (get event ''function_call'')"

definition is_function_result :: "'n jsval \<Rightarrow> bool" where
  "is_function_result event \<longleftrightarrow>
     get event ''type'' = JStr ''function_call_output''
     \<or> get event ''type'' = JStr ''tool_result''"

definition is_text :: "'n js_runtime \<Rightarrow> 'n jsval \<Rightarrow> bool" where
  "is_text R event \<longleftrightarrow>
     get event ''type'' = JStr ''text'' \<and> truthy R (get event ''text'')"

definition is_error :: "'n js_runtime \<Rightarrow> 'n jsval \<Rightarrow> bool" where
  "is_error R event \<longleftrightarrow>
     get event ''type'' = JStr ''error'' \<or> truthy R (get event ''error'')"

text \<open>
  The body of the \<^verbatim>\<open>try\<close> block after \<^verbatim>\<open>JSON.parse\<close>: \<open>None\<close> is an exception
  thrown inside it (the TypeError of a property read on \<^verbatim>\<open>null\<close>).
\<close>

definition event_to_events :: "'n js_runtime \<Rightarrow> 'n jsval \<Rightarrow> 'n AgentDisplayEvent list option" where
  "event_to_events R event =
     (if nullish event then None
      else if is_message R event then
        (if get event ''role'' = JStr ''user'' then Some []
         else
           (case js_or R (get event ''content'') (opt_prop (get event ''message'') ''content'') of
              JArr parts \<Rightarrow> content_events R parts
            | JStr s \<Rightarrow> Some [Text_event (JStr s)]
            | _ \<Rightarrow> Some []))
      else if is_function_call R event then
        (let call = js_or R (get event ''function_call'') event
         in Some [Tool_use_event (tool_name R call)
                    (js_or R (get call ''arguments'') (get call ''input''))])
      else if is_function_result event then
        (let isError = (get event ''is_error'' = JBool True \<or> get event ''error'' \<noteq> JUndefined);
             errMsg = extractErrorMessage R (get event ''error'')
         in Some ((if isError
                   then [Error_event (if errMsg \<noteq> [] then errMsg else ''tool execution failed'')]
                   else [])
                  @ [Tool_result_event]))
      else if is_text R event then Some [Text_event (get event ''text'')]
      else if is_error R event then
        (let e1 = extractErrorMessage R (get event ''error'');
             e2 = extractErrorMessage R (get event ''message'')
         in Some [Error_event (if e1 \<noteq> [] then e1 else if e2 \<noteq> [] then e2 else ''Unknown error'')])
      else Some [])"

text \<open>A parsed record has a recognized shape when one of the five branches takes it.\<close>

definition recognized :: "'n js_runtime \<Rightarrow> 'n jsval \<Rightarrow> bool" where
  "recognized R event \<longleftrightarrow>
     is_message R event \<or> is_function_call R event \<or> is_function_result event
     \<or> is_text R event \<or> is_error R event"

text \<open>
  \<^verbatim>\<open>parseCodexJsonLine\<close>: the empty line gives no event; the \<^verbatim>\<open>catch\<close> turns every
  exception of the \<^verbatim>\<open>try\<close> block (SyntaxError, TypeError) into the empty list.
\<close>

definition parseCodexJsonLine :: "'n js_runtime \<Rightarrow> string \<Rightarrow> 'n AgentDisplayEvent list" where
  "parseCodexJsonLine R jsonLine =
     (if jsonLine = [] then []
      else (case JSON_parse R jsonLine \<bind> event_to_events R of
              None \<Rightarrow> []
            | Some events \<Rightarrow> events))"

section \<open>The Codex plugin: the stdout stream\<close>

text \<open>
  \<^verbatim>\<open>String.prototype.trim\<close> removes white space and line terminators at both ends; of
  the code units up to U+00FF these are TAB, LF, VT, FF, CR, SPACE and NBSP.
\<close>

definition is_js_space :: "char \<Rightarrow> bool" where
  "is_js_space c \<longleftrightarrow>
     c = CHR 0x09 \<or> c = CHR 0x0A \<or> c = CHR 0x0B \<or> c = CHR 0x0C \<or> c = CHR 0x0D
     \<or> c = CHR 0x20 \<or> c = CHR 0xA0"

definition trim :: "string \<Rightarrow> string" where
  "trim s = rev (dropWhile is_js_space (rev (dropWhile is_js_space s)))"

text \<open>
  \<^verbatim>\<open>s.split('\n')\<close>: the pieces between the line feeds, one more than there are line
  feeds (so the empty string gives one empty piece). \<^verbatim>\<open>lines.join('\n')\<close> puts a line
  feed between the pieces.
\<close>

fun split_lines :: "string \<Rightarrow> string list" where
  "split_lines [] = [[]]"
| "split_lines (c # cs) =
     (if c = CHR 0x0A then [] # split_lines cs
      else (case split_lines cs of
              [] \<Rightarrow> [[c]]
            | l # ls \<Rightarrow> (c # l) # ls))"

fun join_lines :: "string list \<Rightarrow> string" where
  "join_lines [] = []"
| "join_lines [l] = l"
| "join_lines (l # ls) = l @ CHR 0x0A # join_lines ls"

definition endsWith_newline :: "string \<Rightarrow> bool" where
  "endsWith_newline s \<longleftrightarrow> s \<noteq> [] \<and> last s = CHR 0x0A"

text \<open>\<^verbatim>\<open>xs.pop()\<close>: the last element (\<^verbatim>\<open>undefined\<close> on an empty array) and the array without it.\<close>

definition pop :: "'a list \<Rightarrow> 'a option \<times> 'a list" where
  "pop xs = (if xs = [] then (None, []) else (Some (last xs), butlast xs))"

text \<open>\<^verbatim>\<open>parseCodexOutputToEvents\<close>: every line of the data, trimmed, through the line parser.\<close>

definition parseCodexOutputToEvents :: "'n js_runtime \<Rightarrow> string \<Rightarrow> 'n AgentDisplayEvent list" where
  "parseCodexOutputToEvents R data =
     concat (map (\<lambda>line. parseCodexJsonLine R (trim line)) (split_lines data))"

text \<open>
  The \<^verbatim>\<open>onStdout\<close> wrapper that \<^verbatim>\<open>execute\<close> installs, as a step on the variable
  \<^verbatim>\<open>jsonlBuffer\<close> it closes over: from the buffer and one chunk to the new buffer, the
  records forwarded to \<^verbatim>\<open>onJsonlMessage\<close> (when the caller gave that callback) and the
  display events of the chunk. The events then go to the caller's callbacks through
  \<^verbatim>\<open>processAgentEventsToSegments\<close> and \<^verbatim>\<open>processAgentEvents\<close> of the shared output
  formatting, when there is at least one.
\<close>

record 'n stdout_step =
  jsonlBuffer :: string
  jsonlMessages :: "'n jsval list"
  displayEvents :: "'n AgentDisplayEvent list"

definition forward_jsonl :: "'n js_runtime \<Rightarrow> string list \<Rightarrow> 'n jsval list" where
  "forward_jsonl R lines =
     concat (map (\<lambda>line.
        (let trimmed = trim line
         in if trimmed \<noteq> [] \<and> hd trimmed = CHR ''{''
            then (case JSON_parse R trimmed of None \<Rightarrow> [] | Some parsed \<Rightarrow> [parsed])
            else [])) lines)"

definition onStdout :: "'n js_runtime \<Rightarrow> bool \<Rightarrow> string \<Rightarrow> string \<Rightarrow> 'n stdout_step" where
  "onStdout R hasJsonlCallback buffer data =
     (let combined = buffer @ data;
          split = split_lines combined;
          popped = pop split;
          lines = (if \<not> endsWith_newline data then snd popped else split);
          completeData = join_lines lines
      in \<lparr> jsonlBuffer =
             (if \<not> endsWith_newline data
              then (case fst popped of None \<Rightarrow> [] | Some l \<Rightarrow> l)
              else []),
           jsonlMessages = (if hasJsonlCallback then forward_jsonl R lines else []),
           displayEvents = parseCodexOutputToEvents R completeData \<rparr>)"

text \<open>
  One \<^verbatim>\<open>execute\<close> call: \<^verbatim>\<open>jsonlBuffer\<close> starts empty and the wrapper runs once per
  chunk, in order. \<open>feed\<close> returns the buffer left at the end and the display events
  of all chunks, in the order they were produced.
\<close>

fun feed :: "'n js_runtime \<Rightarrow> bool \<Rightarrow> string \<Rightarrow> string list \<Rightarrow> string \<times> 'n AgentDisplayEvent list" where
  "feed R j buffer [] = (buffer, [])"
| "feed R j buffer (data # chunks) =
     (let step = onStdout R j buffer data;
          rest = feed R j (jsonlBuffer step) chunks
      in (fst rest, displayEvents step @ snd rest))"

definition execute_events :: "'n js_runtime \<Rightarrow> bool \<Rightarrow> string list \<Rightarrow> 'n AgentDisplayEvent list" where
  "execute_events R j chunks = snd (feed R j [] chunks)"

text \<open>
  The completed records of a stream are its pieces before the last line feed; what
  follows the last line feed is the incomplete trailing record.
\<close>

definition completed_records :: "string \<Rightarrow> string list" where
  "completed_records stream = butlast (split_lines stream)"

definition trailing_record :: "string \<Rightarrow> string" where
  "trailing_record stream = last (split_lines stream)"

section \<open>ProcessRunner: \<^verbatim>\<open>runProcess\<close>\<close>

text \<open>
  \<^verbatim>\<open>runProcess(command, args, {cwd, env, timeout})\<close> as tests/utils/process.test.ts
  implements it on \<^verbatim>\<open>Bun.spawn\<close>. What the operating system and the child do is the
  input of the model: \<^verbatim>\<open>Bun.spawn\<close> throws or starts a child; a child that is left
  alone ends after \<open>lifetime_ms\<close> as \<open>undisturbed\<close> says, a child that receives SIGTERM
  ends as \<open>after_sigterm\<close> says. An ending is the text of both pipes and the exit code,
  or the message of an error thrown while the pipes are read or the exit is awaited.
\<close>

record ending =
  out_text :: string
  err_text :: string
  code :: int
  read_failure :: "string option"

record child =
  lifetime_ms :: nat
  undisturbed :: ending
  after_sigterm :: ending

datatype spawn_outcome = Spawn_throws string | Spawned child

record spawn_options =
  spawn_cwd :: "string option"
  spawn_env :: "string \<rightharpoonup> string"

record process_host =
  process_env :: "string \<rightharpoonup> string"
  Bun_spawn :: "string list \<Rightarrow> spawn_options \<Rightarrow> spawn_outcome"

record run_options =
  cwd :: "string option"
  env :: "(string \<rightharpoonup> string) option"
  timeout :: int

record process_result =
  exitCode :: "int option"
  signal :: "string option"
  stdout :: string
  stderr :: string
  success :: bool

definition failed_result :: "string \<Rightarrow> process_result" where
  "failed_result message =
     \<lparr> exitCode = None, signal = None, stdout = [], stderr = message, success = False \<rparr>"

text \<open>
  The timer is set when \<open>timeout > 0\<close> and fires unless the child's pipes have closed
  and its exit has been seen before, which clears it.
\<close>

definition timer_fires :: "run_options \<Rightarrow> child \<Rightarrow> bool" where
  "timer_fires options c \<longleftrightarrow> timeout options > 0 \<and> timeout options < int (lifetime_ms c)"

text \<open>
  The second argument of \<^verbatim>\<open>Bun.spawn\<close>: the working directory as given and the
  environment, \<^verbatim>\<open>{ ...process.env, ...env }\<close> when the caller gave one.
\<close>

definition spawn_request :: "process_host \<Rightarrow> run_options \<Rightarrow> spawn_options" where
  "spawn_request host options =
     \<lparr> spawn_cwd = cwd options,
       spawn_env = (case env options of
                      None \<Rightarrow> process_env host
                    | Some e \<Rightarrow> process_env host ++ e) \<rparr>"

definition runProcess :: "process_host \<Rightarrow> string \<Rightarrow> string list \<Rightarrow> run_options \<Rightarrow> process_result" where
  "runProcess host command args options =
     (case Bun_spawn host (command # args) (spawn_request host options) of
        Spawn_throws message \<Rightarrow> failed_result message
      | Spawned c \<Rightarrow>
          (let killed = timer_fires options c;
               e = (if killed then after_sigterm c else undisturbed c)
           in (case read_failure e of
                 Some message \<Rightarrow> failed_result message
               | None \<Rightarrow>
                   \<lparr> exitCode = Some (code e),
                     signal = (if killed then Some ''SIGTERM'' else None),
                     stdout = out_text e,
                     stderr = err_text e,
                     success = (code e = 0) \<rparr>)))"

section \<open>SandboxDetector: \<^verbatim>\<open>commandExists\<close> and \<^verbatim>\<open>detectSandboxMode\<close>\<close>

text \<open>
  The machine is \<^verbatim>\<open>process.platform\<close> and what spawning a probe gives: \<open>None\<close> where
  \<^verbatim>\<open>Bun.spawn\<close> or awaiting the exit throws, the exit code otherwise.
\<close>

record machine =
  platform :: string
  probe :: "string list \<Rightarrow> int option"

definition commandExists :: "machine \<Rightarrow> string \<Rightarrow> bool" where
  "commandExists m command =
     (if command = [] \<or> trim command = [] then False
      else (let isWindows = (platform m = ''win32'');
                whichCmd = (if isWindows then ''where'' else ''which'')
            in (case probe m [whichCmd, command] of
                  None \<Rightarrow> False
                | Some exited \<Rightarrow> exited = 0)))"

definition detectSandboxMode :: "machine \<Rightarrow> string" where
  "detectSandboxMode m =
     (let os = platform m
      in if os = ''linux'' \<and> commandExists m ''bwrap'' then ''bwrap''
         else if os = ''darwin'' \<and> commandExists m ''sandbox-exec'' then ''sandbox-exec''
         else ''off'')"

section \<open>Worker\<close>

text \<open>
  The test suite src/parallel/worker.test.ts drives a \<^verbatim>\<open>Worker\<close> through its public
  interface; the class itself (src/parallel/worker.ts) is not among the sources. The
  task and configuration records are the ones the tests build.
\<close>

datatype task_status = Open | In_progress | Done | Blocked

record TrackerTask =
  task_id :: string
  title :: string
  task_status :: task_status
  priority :: int

record WorkerConfig =
  config_id :: string
  config_task :: TrackerTask
  worktreePath :: string
  branchName :: string
  config_cwd :: string

datatype WorkerStatus = Idle | Running | Paused | Completed | Cancelled | Error_status

record WorkerDisplayState =
  display_id :: string
  display_status :: WorkerStatus
  display_task :: TrackerTask
  display_currentIteration :: nat
  display_maxIterations :: nat
  display_lastOutput :: string
  display_elapsedMs :: nat
  display_commitSha :: "string option"
  display_worktreePath :: string
  display_branchName :: string

record WorkerResult =
  result_success :: bool
  result_taskCompleted :: bool
  result_commitCount :: nat
  result_commitSha :: "string option"
  result_error :: "string option"

text \<open>
  The engine as the Worker sees it. The bound engine carries the two cooperative
  requests a Worker forwards to it. One \<^verbatim>\<open>engine.start()\<close> call is a run: the events
  the engine emits into the Worker and the calls it makes back into it, in order, then
  either a return or an exception with a message; \<open>state_after\<close> is what
  \<^verbatim>\<open>getState()\<close> answers once the run is over. The tests' fake engines are such runs.
\<close>

record engine_handle =
  cancel_requested :: bool
  pause_flag :: bool

record engine_state =
  tasksCompleted :: nat
  engine_iteration :: nat

datatype engine_event =
    Auto_committed string
  | Iteration_observed nat string nat
  | Other_engine_event

datatype engine_action = Emit engine_event | Calls_worker_stop

record engine_run =
  actions :: "engine_action list"
  raises :: "string option"
  state_after :: engine_state

record Worker =
  config :: WorkerConfig
  maxIterations :: nat
  status :: WorkerStatus
  engine :: "engine_handle option"
  commitCount :: nat
  commitSha :: "string option"
  currentIteration :: nat
  lastOutput :: string
  elapsedMs :: nat
  listeners :: "nat list"
  engineListeners :: "nat list"
  nextHandle :: nat

text \<open>
  Modelled from the spec: the constructor of \<^verbatim>\<open>Worker\<close> (src/parallel/worker.ts is
  missing). Status starts as idle, no engine is bound, and the engine-observed data are
  0, the empty string and 0 with no commit identifier.
\<close>

definition new_Worker :: "WorkerConfig \<Rightarrow> nat \<Rightarrow> Worker" where
  "new_Worker cfg maxIter =
     \<lparr> config = cfg, maxIterations = maxIter, status = Idle, engine = None,
       commitCount = 0, commitSha = None, currentIteration = 0, lastOutput = [],
       elapsedMs = 0, listeners = [], engineListeners = [], nextHandle = 0 \<rparr>"

text \<open>
  Modelled from the spec: \<^verbatim>\<open>Worker.initialize\<close> (src/parallel/worker.ts is missing),
  which binds one engine to the Worker.
\<close>

definition initialize :: "Worker \<Rightarrow> Worker" where
  "initialize w = w\<lparr>engine := Some \<lparr> cancel_requested = False, pause_flag = False \<rparr>\<rparr>"

text \<open>
  Modelled from the spec: \<^verbatim>\<open>Worker.getDisplayState\<close> (src/parallel/worker.ts is
  missing): a snapshot combining the static configuration with the latest
  engine-observed iteration, output and elapsed time.
\<close>

definition getDisplayState :: "Worker \<Rightarrow> WorkerDisplayState" where
  "getDisplayState w =
     \<lparr> display_id = config_id (config w),
       display_status = status w,
       display_task = config_task (config w),
       display_currentIteration = currentIteration w,
       display_maxIterations = maxIterations w,
       display_lastOutput = lastOutput w,
       display_elapsedMs = elapsedMs w,
       display_commitSha = commitSha w,
       display_worktreePath = worktreePath (config w),
       display_branchName = branchName (config w) \<rparr>"

text \<open>
  Modelled from the spec: the Worker's handler of engine events
  (src/parallel/worker.ts is missing). An auto-committed event increments
  \<^verbatim>\<open>commitCount\<close> and records its commit identifier; the display data follow the
  latest observed iteration, output and elapsed time.
\<close>

fun handleEngineEvent :: "Worker \<Rightarrow> engine_event \<Rightarrow> Worker" where
  "handleEngineEvent w (Auto_committed sha) =
     w\<lparr>commitCount := commitCount w + 1, commitSha := Some sha\<rparr>"
| "handleEngineEvent w (Iteration_observed i output ms) =
     w\<lparr>currentIteration := i, lastOutput := output, elapsedMs := ms\<rparr>"
| "handleEngineEvent w Other_engine_event = w"

text \<open>
  Modelled from the spec: \<^verbatim>\<open>Worker.stop\<close> (src/parallel/worker.ts is missing). With
  no bound engine the status still becomes cancelled; with one, its cancellation is
  requested first.
\<close>

definition stop :: "Worker \<Rightarrow> Worker" where
  "stop w =
     (case engine w of
        None \<Rightarrow> w\<lparr>status := Cancelled\<rparr>
      | Some e \<Rightarrow> w\<lparr>engine := Some (e\<lparr>cancel_requested := True\<rparr>), status := Cancelled\<rparr>)"

text \<open>
  Modelled from the spec: \<^verbatim>\<open>Worker.pause\<close> and \<^verbatim>\<open>Worker.resume\<close>
  (src/parallel/worker.ts is missing): forwarded to the engine if present, else nothing
  happens.
\<close>

definition pause :: "Worker \<Rightarrow> Worker" where
  "pause w =
     (case engine w of
        None \<Rightarrow> w
      | Some e \<Rightarrow> w\<lparr>engine := Some (e\<lparr>pause_flag := True\<rparr>)\<rparr>)"

definition resume :: "Worker \<Rightarrow> Worker" where
  "resume w =
     (case engine w of
        None \<Rightarrow> w
      | Some e \<Rightarrow> w\<lparr>engine := Some (e\<lparr>pause_flag := False\<rparr>)\<rparr>)"

text \<open>
  Modelled from the spec: what the Worker does during one run of its engine
  (src/parallel/worker.ts is missing): it handles each emitted event, and a call of
  \<^verbatim>\<open>worker.stop()\<close> from inside the run is the Worker's own \<open>stop\<close>.
\<close>

fun perform :: "Worker \<Rightarrow> engine_action \<Rightarrow> Worker" where
  "perform w (Emit ev) = handleEngineEvent w ev"
| "perform w Calls_worker_stop = stop w"

text \<open>
  Modelled from the spec: \<^verbatim>\<open>Worker.start\<close> (src/parallel/worker.ts is missing). It
  fails with "not initialized" when no engine is bound (\<open>Inl\<close> is the exception).
  Otherwise it resets \<^verbatim>\<open>commitCount\<close> and \<^verbatim>\<open>commitSha\<close>, runs the engine, and
  resolves to a result: a failure with the raised message when the engine raises, a
  failure with 'Worker was cancelled' when the run ends with the status cancelled, a
  success otherwise; each result carries the commits counted during the run.
\<close>

definition start :: "engine_run \<Rightarrow> Worker \<Rightarrow> (string + WorkerResult) \<times> Worker" where
  "start run w =
     (case engine w of
        None \<Rightarrow> (Inl ''not initialized'', w)
      | Some e \<Rightarrow>
          (let w1 = w\<lparr>status := Running, commitCount := 0, commitSha := None\<rparr>;
               w2 = foldl perform w1 (actions run);
               completed = (tasksCompleted (state_after run) > 0)
           in (case raises run of
                 Some message \<Rightarrow>
                   (Inr \<lparr> result_success = False, result_taskCompleted = False,
                          result_commitCount = commitCount w2,
                          result_commitSha = commitSha w2,
                          result_error = Some message \<rparr>,
                    w2\<lparr>status := (if status w2 = Cancelled then Cancelled else Error_status)\<rparr>)
               | None \<Rightarrow>
                   (if status w2 = Cancelled
                    then (Inr \<lparr> result_success = False, result_taskCompleted = completed,
                                result_commitCount = commitCount w2,
                                result_commitSha = commitSha w2,
                                result_error = Some ''Worker was cancelled'' \<rparr>,
                          w2)
                    else (Inr \<lparr> result_success = True, result_taskCompleted = completed,
                                result_commitCount = commitCount w2,
                                result_commitSha = commitSha w2,
                                result_error = None \<rparr>,
                          w2\<lparr>status := Completed\<rparr>)))))"

text \<open>
  Modelled from the spec: \<^verbatim>\<open>Worker.on\<close>, \<^verbatim>\<open>Worker.onEngineEvent\<close> and the
  unsubscribe functions they return (src/parallel/worker.ts is missing). Each
  registration gets a handle of its own in the registry of its kind; the returned
  function removes that handle.
\<close>

definition on :: "Worker \<Rightarrow> nat \<times> Worker" where
  "on w = (nextHandle w,
           w\<lparr>listeners := listeners w @ [nextHandle w], nextHandle := nextHandle w + 1\<rparr>)"

definition onEngineEvent :: "Worker \<Rightarrow> nat \<times> Worker" where
  "onEngineEvent w =
     (nextHandle w,
      w\<lparr>engineListeners := engineListeners w @ [nextHandle w], nextHandle := nextHandle w + 1\<rparr>)"

definition unsubscribe :: "nat \<Rightarrow> Worker \<Rightarrow> Worker" where
  "unsubscribe h w = w\<lparr>listeners := removeAll h (listeners w)\<rparr>"

definition unsubscribe_engine :: "nat \<Rightarrow> Worker \<Rightarrow> Worker" where
  "unsubscribe_engine h w = w\<lparr>engineListeners := removeAll h (engineListeners w)\<rparr>"

text \<open>The commit identifiers of the auto-commit events of a run, in the order emitted.\<close>

fun commit_shas :: "engine_action list \<Rightarrow> string list" where
  "commit_shas [] = []"
| "commit_shas (Emit (Auto_committed sha) # acts) = sha # commit_shas acts"
| "commit_shas (a # acts) = commit_shas acts"

definition latest_sha :: "engine_action list \<Rightarrow> string option" where
  "latest_sha acts = (if commit_shas acts = [] then None else Some (last (commit_shas acts)))"

section \<open>Concrete inputs\<close>

text \<open>
  A runtime for the examples: numbers are integers, and \<^verbatim>\<open>JSON.parse\<close> and
  \<^verbatim>\<open>JSON.stringify\<close> are tabulated on the lines and values the examples use (every
  other line counts as a syntax error; the examples pass only \<^verbatim>\<open>not json\<close> and cut
  records there).
\<close>

fun decimal :: "nat \<Rightarrow> string" where
  "decimal n =
     (if n < 10 then [char_of (48 + n)]
      else decimal (n div 10) @ [char_of (48 + n mod 10)])"

definition int_toString :: "int \<Rightarrow> string" where
  "int_toString i = (if i < 0 then CHR ''-'' # decimal (nat (- i)) else decimal (nat i))"

definition sample_parse :: "string \<Rightarrow> int jsval option" where
  \<open>sample_parse s =
     (if s = ''{"type":"message","role":"user","content":"fix the bug"}''
      then Some (JObj [(''type'', JStr ''message''), (''role'', JStr ''user''),
                       (''content'', JStr ''fix the bug'')])
      else if s = ''{"type":"text","text":"done"}''
      then Some (JObj [(''type'', JStr ''text''), (''text'', JStr ''done'')])
      else if s = ''{"type":"tool_result","error":{"code":7}}''
      then Some (JObj [(''type'', JStr ''tool_result''), (''error'', JObj [(''code'', JNum 7)])])
      else if s = ''{"type":"ping"}''
      then Some (JObj [(''type'', JStr ''ping'')])
      else if s = ''null''
      then Some JNull
      else None)\<close>

definition sample_stringify :: "int jsval \<Rightarrow> string option" where
  \<open>sample_stringify v =
     (if v = JObj [(''code'', JNum 7)] then Some ''{"code":7}'' else None)\<close>

definition sample_runtime :: "int js_runtime" where
  "sample_runtime =
     \<lparr> JSON_parse = sample_parse, JSON_stringify = sample_stringify,
       Number_isFalsy = (\<lambda>n. n = 0), Number_toString = int_toString \<rparr>"

definition user_prompt_record :: "int jsval" where
  "user_prompt_record =
     JObj [(''type'', JStr ''message''), (''role'', JStr ''user''),
           (''content'', JStr ''fix the bug'')]"

text \<open>
  A child that handles SIGTERM by shutting down cleanly with exit code 0, a machine on
  which \<^verbatim>\<open>Bun.spawn\<close> finds no executable, and a timeout of 100 ms.
\<close>

definition graceful_child :: child where
  "graceful_child =
     \<lparr> lifetime_ms = 10000,
       undisturbed = \<lparr> out_text = [], err_text = [], code = 0, read_failure = None \<rparr>,
       after_sigterm = \<lparr> out_text = ''bye'', err_text = [], code = 0, read_failure = None \<rparr> \<rparr>"

definition graceful_host :: process_host where
  "graceful_host =
     \<lparr> process_env = Map.empty, Bun_spawn = (\<lambda>argv request. Spawned graceful_child) \<rparr>"

definition bare_host :: process_host where
  "bare_host =
     \<lparr> process_env = Map.empty,
       Bun_spawn = (\<lambda>argv request. Spawn_throws ''Executable not found in $PATH'') \<rparr>"

text \<open>
  The child of the test 'respects timeout': it sleeps for ten seconds, has no handler
  for SIGTERM, and so ends with the code 128 + 15 when the signal arrives.
\<close>

definition sleeping_child :: child where
  "sleeping_child =
     \<lparr> lifetime_ms = 10000,
       undisturbed = \<lparr> out_text = [], err_text = [], code = 0, read_failure = None \<rparr>,
       after_sigterm = \<lparr> out_text = [], err_text = [], code = 143, read_failure = None \<rparr> \<rparr>"

definition sleeping_host :: process_host where
  "sleeping_host =
     \<lparr> process_env = Map.empty, Bun_spawn = (\<lambda>argv request. Spawned sleeping_child) \<rparr>"

definition short_timeout :: run_options where
  "short_timeout = \<lparr> cwd = None, env = None, timeout = 100 \<rparr>"

text \<open>Three machines: Linux with bwrap on PATH, macOS without sandbox-exec, Windows.\<close>

definition linux_with_bwrap :: machine where
  "linux_with_bwrap =
     \<lparr> platform = ''linux'',
       probe = (\<lambda>argv. if argv = [''which'', ''bwrap''] then Some 0 else Some 1) \<rparr>"

definition mac_without_tool :: machine where
  "mac_without_tool = \<lparr> platform = ''darwin'', probe = (\<lambda>argv. Some 1) \<rparr>"

definition windows_box :: machine where
  "windows_box = \<lparr> platform = ''win32'', probe = (\<lambda>argv. None) \<rparr>"

text \<open>The Worker and the fake engine runs of src/parallel/worker.test.ts.\<close>

definition sample_task :: TrackerTask where
  "sample_task = \<lparr> task_id = ''T1'', title = ''Task T1'', task_status = Open, priority = 2 \<rparr>"

definition sample_config :: WorkerConfig where
  "sample_config =
     \<lparr> config_id = ''w1'', config_task = sample_task, worktreePath = ''/tmp/worktrees/w1'',
       branchName = ''ralph-parallel/T1'', config_cwd = ''/tmp/project'' \<rparr>"

definition bound_worker :: Worker where
  "bound_worker = initialize (new_Worker sample_config 10)"

definition first_run :: engine_run where
  "first_run =
     \<lparr> actions = [Emit (Auto_committed ''firstsha'')],
       raises = None,
       state_after = \<lparr> tasksCompleted = 1, engine_iteration = 1 \<rparr> \<rparr>"

definition second_run :: engine_run where
  "second_run =
     \<lparr> actions = [],
       raises = None,
       state_after = \<lparr> tasksCompleted = 1, engine_iteration = 1 \<rparr> \<rparr>"

definition two_commit_run :: engine_run where
  "two_commit_run =
     \<lparr> actions = [Emit (Auto_committed ''abc123''), Emit (Auto_committed ''def456'')],
       raises = None,
       state_after = \<lparr> tasksCompleted = 1, engine_iteration = 2 \<rparr> \<rparr>"

definition failing_run :: engine_run where
  "failing_run =
     \<lparr> actions = [Emit (Auto_committed ''errorsha'')],
       raises = Some ''boom'',
       state_after = \<lparr> tasksCompleted = 0, engine_iteration = 0 \<rparr> \<rparr>"




section \<open>The line parser absorbs what it cannot read\<close>

lemma parse_text_example:
  \<open>parseCodexJsonLine sample_runtime ''{"type":"text","text":"done"}''
     = [Text_event (JStr ''done'')]\<close>
  by (simp add: parseCodexJsonLine_def sample_runtime_def sample_parse_def event_to_events_def
      is_message_def is_function_call_def is_function_result_def is_text_def)

lemma parse_tool_error_example:
  \<open>parseCodexJsonLine sample_runtime ''{"type":"tool_result","error":{"code":7}}''
     = [Error_event ''{"code":7}'', Tool_result_event]\<close>
  by (simp add: parseCodexJsonLine_def sample_runtime_def sample_parse_def event_to_events_def
      is_message_def is_function_call_def is_function_result_def is_text_def
      sample_stringify_def)

text \<open>
  C6. \<^verbatim>\<open>parseCodexJsonLine\<close> returns a list of display events for every line: the
  exceptions of its \<^verbatim>\<open>try\<close> block are values of the model, and each of them ends in
  the empty list. A line that \<^verbatim>\<open>JSON.parse\<close> rejects gives the empty list; a line that
  parses to a record of no recognized shape gives the empty list; and so does a line
  whose record makes the body throw (a \<^verbatim>\<open>null\<close> record or content part).
\<close>

theorem parseCodexJsonLine_absorbs:
  assumes "JSON_parse R line = None
           \<or> (\<exists>event. JSON_parse R line = Some event
                 \<and> (\<not> recognized R event \<or> event_to_events R event = None))"
  shows "parseCodexJsonLine R line = []"
  using assms
  by (auto simp: parseCodexJsonLine_def recognized_def event_to_events_def)

theorem parseCodexJsonLine_absorbs_witness:
  \<open>JSON_parse sample_runtime ''not json'' = None
   \<and> parseCodexJsonLine sample_runtime ''not json'' = []
   \<and> JSON_parse sample_runtime ''{"type":"ping"}'' = Some (JObj [(''type'', JStr ''ping'')])
   \<and> \<not> recognized sample_runtime (JObj [(''type'', JStr ''ping'')])
   \<and> parseCodexJsonLine sample_runtime ''{"type":"ping"}'' = []
   \<and> JSON_parse sample_runtime ''null'' = Some JNull
   \<and> event_to_events sample_runtime JNull = None
   \<and> parseCodexJsonLine sample_runtime ''null'' = []\<close>
proof -
  have a: "JSON_parse sample_runtime ''not json'' = None"
    by (simp add: sample_runtime_def sample_parse_def)
  have b: \<open>JSON_parse sample_runtime ''{"type":"ping"}'' = Some (JObj [(''type'', JStr ''ping'')])\<close>
    by (simp add: sample_runtime_def sample_parse_def)
  have b': "\<not> recognized sample_runtime (JObj [(''type'', JStr ''ping'')])"
    by (simp add: recognized_def is_message_def is_function_call_def is_function_result_def
        is_text_def is_error_def)
  have c: "JSON_parse sample_runtime ''null'' = Some JNull"
    by (simp add: sample_runtime_def sample_parse_def)
  have c': "event_to_events sample_runtime JNull = None"
    by (simp add: event_to_events_def)
  show ?thesis
    using a b b' c c'
      parseCodexJsonLine_absorbs [of sample_runtime "''not json''"]
      parseCodexJsonLine_absorbs [of sample_runtime \<open>''{"type":"ping"}''\<close>]
      parseCodexJsonLine_absorbs [of sample_runtime "''null''"]
    by blast
qed

text \<open>
  C10. A line that parses to a record of message kind (its type is 'message', or it has
  a truthy message property) whose role is 'user' gives no display event: the echoed
  prompt is dropped.
\<close>

theorem user_message_no_events:
  assumes "JSON_parse R line = Some event"
    and "is_message R event"
    and "get event ''role'' = JStr ''user''"
  shows "parseCodexJsonLine R line = []"
proof -
  have "\<not> nullish event" using assms(3) by (cases event) auto
  then have "event_to_events R event = Some []"
    using assms(2,3) by (simp add: event_to_events_def)
  then show ?thesis using assms(1) by (simp add: parseCodexJsonLine_def)
qed

theorem user_message_no_events_witness:
  \<open>JSON_parse sample_runtime ''{"type":"message","role":"user","content":"fix the bug"}''
     = Some user_prompt_record
   \<and> is_message sample_runtime user_prompt_record
   \<and> get user_prompt_record ''role'' = JStr ''user''
   \<and> parseCodexJsonLine sample_runtime
        ''{"type":"message","role":"user","content":"fix the bug"}'' = []\<close>
proof -
  have a: \<open>JSON_parse sample_runtime ''{"type":"message","role":"user","content":"fix the bug"}''
     = Some user_prompt_record\<close>
    by (simp add: sample_runtime_def sample_parse_def user_prompt_record_def)
  have b: "is_message sample_runtime user_prompt_record"
    by (simp add: is_message_def user_prompt_record_def)
  have c: "get user_prompt_record ''role'' = JStr ''user''"
    by (simp add: user_prompt_record_def)
  show ?thesis using a b c user_message_no_events [OF a b c] by simp
qed

section \<open>Chunk boundaries of the stdout stream\<close>

lemma split_lines_nonempty: "split_lines s \<noteq> []"
  by (induction s) (auto split: list.splits)

text \<open>
  Splitting a concatenation: the pieces of the first part but its last, then the pieces
  of that last piece followed by the second part.
\<close>

lemma split_lines_append:
  "split_lines (a @ b) = butlast (split_lines a) @ split_lines (last (split_lines a) @ b)"
proof (induction a)
  case Nil
  show ?case by simp
next
  case (Cons c a)
  obtain l ls where sp: "split_lines a = l # ls"
    using split_lines_nonempty [of a] by (cases "split_lines a") auto
  show ?case
  proof (cases "c = CHR 0x0A")
    case True
    then show ?thesis using Cons sp by simp
  next
    case False
    show ?thesis
    proof (cases ls)
      case Nil
      then show ?thesis using Cons sp False by simp
    next
      case (Cons l' ls')
      then show ?thesis using Cons.IH sp False by simp
    qed
  qed
qed

lemma split_lines_no_newline: "l \<in> set (split_lines s) \<Longrightarrow> CHR 0x0A \<notin> set l"
proof (induction s arbitrary: l)
  case Nil
  then show ?case by simp
next
  case (Cons c s)
  obtain k ks where sp: "split_lines s = k # ks"
    using split_lines_nonempty [of s] by (cases "split_lines s") auto
  show ?case
  proof (cases "c = CHR 0x0A")
    case True
    then show ?thesis using Cons by auto
  next
    case False
    then have "l = c # k \<or> l \<in> set ks" using Cons.prems sp by simp
    moreover have "CHR 0x0A \<notin> set k" using Cons.IH [of k] sp by simp
    moreover have "l \<in> set ks \<Longrightarrow> CHR 0x0A \<notin> set l" using Cons.IH [of l] sp by simp
    ultimately show ?thesis using False by auto
  qed
qed

lemma split_lines_single: "CHR 0x0A \<notin> set s \<Longrightarrow> split_lines s = [s]"
  by (induction s) auto

lemma split_lines_line:
  "CHR 0x0A \<notin> set l \<Longrightarrow> split_lines (l @ CHR 0x0A # r) = l # split_lines r"
  by (induction l) auto

lemma split_lines_snoc_newline: "split_lines (s @ [CHR 0x0A]) = split_lines s @ [[]]"
proof -
  have nl: "CHR 0x0A \<notin> set (last (split_lines s))"
    using split_lines_nonempty [of s] split_lines_no_newline [of "last (split_lines s)" s]
    by simp
  have "split_lines (s @ [CHR 0x0A])
      = butlast (split_lines s) @ split_lines (last (split_lines s) @ [CHR 0x0A])"
    by (rule split_lines_append)
  also have "split_lines (last (split_lines s) @ [CHR 0x0A]) = [last (split_lines s), []]"
    using split_lines_line [OF nl, of "[]"] by simp
  finally show ?thesis using split_lines_nonempty [of s]
    by (metis append_Cons append_Nil append_assoc append_butlast_last_id)
qed

lemma split_join_lines:
  "ls \<noteq> [] \<Longrightarrow> (\<And>l. l \<in> set ls \<Longrightarrow> CHR 0x0A \<notin> set l)
     \<Longrightarrow> split_lines (join_lines ls) = ls"
proof (induction ls rule: join_lines.induct)
  case 1
  then show ?case by simp
next
  case (2 l)
  then show ?case by (simp add: split_lines_single)
next
  case (3 l k ks)
  have nl: "CHR 0x0A \<notin> set l" using 3 by simp
  have "split_lines (join_lines (k # ks)) = k # ks" using 3 by simp
  then show ?case using split_lines_line [OF nl] by simp
qed

lemma parseCodexJsonLine_trim_Nil: "parseCodexJsonLine R (trim []) = []"
  by (simp add: parseCodexJsonLine_def trim_def)

text \<open>Joining pieces and parsing the result parses exactly the pieces.\<close>

lemma events_of_join_lines:
  assumes "\<And>l. l \<in> set ls \<Longrightarrow> CHR 0x0A \<notin> set l"
  shows "parseCodexOutputToEvents R (join_lines ls)
         = concat (map (\<lambda>line. parseCodexJsonLine R (trim line)) ls)"
proof (cases "ls = []")
  case True
  then show ?thesis by (simp add: parseCodexOutputToEvents_def parseCodexJsonLine_trim_Nil)
next
  case False
  then show ?thesis using assms by (simp add: parseCodexOutputToEvents_def split_join_lines)
qed

lemma endsWith_newline_split:
  assumes "endsWith_newline data"
  shows "\<exists>ls. split_lines (buffer @ data) = ls @ [[]]"
proof -
  obtain d where "data = d @ [CHR 0x0A]"
    using assms unfolding endsWith_newline_def by (metis append_butlast_last_id)
  then have "split_lines (buffer @ data) = split_lines (buffer @ d) @ [[]]"
    using split_lines_snoc_newline [of "buffer @ d"] by simp
  then show ?thesis by blast
qed

text \<open>
  One chunk: the events are those of the completed records of buffer and chunk together,
  and the new buffer is the incomplete trailing record.
\<close>

lemma onStdout_step:
  "displayEvents (onStdout R j buffer data)
     = concat (map (\<lambda>line. parseCodexJsonLine R (trim line)) (completed_records (buffer @ data)))
   \<and> jsonlBuffer (onStdout R j buffer data) = trailing_record (buffer @ data)"
proof (cases "endsWith_newline data")
  case True
  then obtain ls where sp: "split_lines (buffer @ data) = ls @ [[]]"
    using endsWith_newline_split by blast
  have "\<And>l. l \<in> set (ls @ [[]]) \<Longrightarrow> CHR 0x0A \<notin> set l"
    using split_lines_no_newline [of _ "buffer @ data"] sp by simp
  then have "parseCodexOutputToEvents R (join_lines (ls @ [[]]))
      = concat (map (\<lambda>line. parseCodexJsonLine R (trim line)) (ls @ [[]]))"
    by (rule events_of_join_lines)
  then show ?thesis using True sp
    by (simp add: onStdout_def Let_def completed_records_def trailing_record_def
        parseCodexJsonLine_trim_Nil)
next
  case False
  have "\<And>l. l \<in> set (butlast (split_lines (buffer @ data))) \<Longrightarrow> CHR 0x0A \<notin> set l"
    using split_lines_no_newline [of _ "buffer @ data"] by (meson in_set_butlastD)
  then have "parseCodexOutputToEvents R (join_lines (butlast (split_lines (buffer @ data))))
      = concat (map (\<lambda>line. parseCodexJsonLine R (trim line))
                  (butlast (split_lines (buffer @ data))))"
    by (rule events_of_join_lines)
  then show ?thesis using False split_lines_nonempty [of "buffer @ data"]
    by (simp add: onStdout_def Let_def completed_records_def trailing_record_def pop_def)
qed

text \<open>The whole stream, from any buffer that holds no line feed.\<close>

lemma feed_stream:
  "CHR 0x0A \<notin> set buffer \<Longrightarrow>
   feed R j buffer chunks
     = (trailing_record (buffer @ concat chunks),
        concat (map (\<lambda>line. parseCodexJsonLine R (trim line))
                  (completed_records (buffer @ concat chunks))))"
proof (induction chunks arbitrary: buffer)
  case Nil
  then show ?case
    by (simp add: trailing_record_def completed_records_def split_lines_single)
next
  case (Cons data chunks)
  let ?b = "trailing_record (buffer @ data)"
  have nl: "CHR 0x0A \<notin> set ?b"
    unfolding trailing_record_def
    using split_lines_nonempty [of "buffer @ data"]
          split_lines_no_newline [of "last (split_lines (buffer @ data))" "buffer @ data"]
    by simp
  have sp: "split_lines (buffer @ concat (data # chunks))
      = completed_records (buffer @ data) @ split_lines (?b @ concat chunks)"
    using split_lines_append [of "buffer @ data" "concat chunks"]
    by (simp add: completed_records_def trailing_record_def)
  have ne: "split_lines (?b @ concat chunks) \<noteq> []" by (rule split_lines_nonempty)
  have c: "completed_records (buffer @ concat (data # chunks))
      = completed_records (buffer @ data) @ completed_records (?b @ concat chunks)"
    unfolding completed_records_def [of "buffer @ concat (data # chunks)"] sp
    using ne by (simp add: completed_records_def butlast_append)
  have t: "trailing_record (buffer @ concat (data # chunks))
      = trailing_record (?b @ concat chunks)"
    unfolding trailing_record_def [of "buffer @ concat (data # chunks)"] sp
    using ne by (simp add: trailing_record_def)
  show ?case
    using Cons.IH [OF nl] onStdout_step [of R j buffer data] c t
    by (simp add: Let_def)
qed

text \<open>
  A stream of two records and the start of a third, cut inside the first and the second
  record: the text record gives its event once, the unrecognized record gives none, and
  the cut third record stays in the buffer.
\<close>

lemma execute_events_example:
  \<open>execute_events sample_runtime False
     [''{"type":"te'',
      ''xt","text":"done"}'' @ [CHR 0x0A] @ ''{"type":"pi'',
      ''ng"}'' @ [CHR 0x0A] @ ''nu'']
   = [Text_event (JStr ''done'')]\<close>
  by (simp add: execute_events_def onStdout_def Let_def pop_def endsWith_newline_def
      parseCodexOutputToEvents_def trim_def is_js_space_def
      parseCodexJsonLine_def sample_runtime_def sample_parse_def event_to_events_def
      is_message_def is_function_call_def is_function_result_def is_text_def is_error_def)

text \<open>
  C1. For every sequence of stdout chunks given to the wrapper that \<^verbatim>\<open>execute\<close>
  installs, the display events produced are exactly the events of the completed
  (newline-terminated) records of the stream, each record parsed once and in order; the
  incomplete trailing record is what the buffer holds at the end; and the events are
  those produced when the whole stream arrives as one chunk, however it was cut.
\<close>

theorem execute_chunk_boundaries:
  "execute_events R j chunks
     = concat (map (\<lambda>record. parseCodexJsonLine R (trim record))
                 (completed_records (concat chunks)))
   \<and> fst (feed R j [] chunks) = trailing_record (concat chunks)
   \<and> execute_events R j chunks = execute_events R j [concat chunks]"
  using feed_stream [of "[]" R j chunks] feed_stream [of "[]" R j "[concat chunks]"]
  by (simp add: execute_events_def)

section \<open>ProcessRunner\<close>

text \<open>The test 'respects timeout': the signal is recorded and the run is not a success.\<close>

lemma runProcess_respects_timeout:
  "runProcess sleeping_host ''node'' [''-e'', ''setTimeout(() => {}, 10000)''] short_timeout
     = \<lparr> exitCode = Some 143, signal = Some ''SIGTERM'', stdout = [], stderr = [],
         success = False \<rparr>"
  by (simp add: runProcess_def sleeping_host_def sleeping_child_def short_timeout_def
      timer_fires_def)

text \<open>
  A child that outlives the timeout, receives SIGTERM and shuts down with exit code 0:
  the result records the signal and reports success, since \<^verbatim>\<open>success\<close> is
  \<^verbatim>\<open>exitCode === 0\<close> whether or not the timer has fired. So it does not hold that
  every run whose child outlives a positive timeout resolves to \<^verbatim>\<open>success\<close> false.
\<close>

theorem runProcess_timeout_counterexample:
  "0 < timeout short_timeout
   \<and> Bun_spawn graceful_host [''node'', ''server.js''] (spawn_request graceful_host short_timeout)
       = Spawned graceful_child
   \<and> int (lifetime_ms graceful_child) > timeout short_timeout
   \<and> runProcess graceful_host ''node'' [''server.js''] short_timeout
       = \<lparr> exitCode = Some 0, signal = Some ''SIGTERM'', stdout = ''bye'', stderr = [],
           success = True \<rparr>"
  by (simp add: runProcess_def graceful_host_def graceful_child_def short_timeout_def
      timer_fires_def)

text \<open>
  C4, as the code has it. \<^verbatim>\<open>runProcess\<close> always resolves to a result, and
  \<^verbatim>\<open>success\<close> holds exactly when the exit code is 0. A spawn failure, and a failure
  while the output is read, give the failed result: no exit code, no signal, the error's
  message in \<^verbatim>\<open>stderr\<close>, \<^verbatim>\<open>success\<close> false. A child that ends before the timer
  fires gives its exit code and no signal, and a non-zero code gives \<^verbatim>\<open>success\<close>
  false. A child that outlives a positive timeout, and whose output is then read, gives
  the signal 'SIGTERM' and the exit code it ends with after the signal, and \<^verbatim>\<open>success\<close>
  is false exactly when that code is not 0.
\<close>

theorem runProcess_results:
  "(success (runProcess host command args options)
      \<longleftrightarrow> exitCode (runProcess host command args options) = Some 0)
   \<and> (\<forall>message. Bun_spawn host (command # args) (spawn_request host options) = Spawn_throws message
        \<longrightarrow> runProcess host command args options = failed_result message
            \<and> \<not> success (runProcess host command args options))
   \<and> (\<forall>c. Bun_spawn host (command # args) (spawn_request host options) = Spawned c
        \<longrightarrow> (\<forall>message. read_failure (if timer_fires options c then after_sigterm c else undisturbed c)
                = Some message
              \<longrightarrow> runProcess host command args options = failed_result message
                  \<and> \<not> success (runProcess host command args options))
          \<and> (\<not> timer_fires options c \<and> read_failure (undisturbed c) = None
              \<longrightarrow> exitCode (runProcess host command args options) = Some (code (undisturbed c))
                  \<and> signal (runProcess host command args options) = None
                  \<and> (code (undisturbed c) \<noteq> 0
                      \<longrightarrow> \<not> success (runProcess host command args options)))
          \<and> (timer_fires options c \<and> read_failure (after_sigterm c) = None
              \<longrightarrow> signal (runProcess host command args options) = Some ''SIGTERM''
                  \<and> exitCode (runProcess host command args options)
                      = Some (code (after_sigterm c))
                  \<and> (success (runProcess host command args options)
                      \<longleftrightarrow> code (after_sigterm c) = 0)))"
  by (auto simp: runProcess_def failed_result_def Let_def
      split: spawn_outcome.splits option.splits)

theorem runProcess_results_witness:
  "Bun_spawn bare_host [''nonexistent-command-xyz''] (spawn_request bare_host short_timeout)
       = Spawn_throws ''Executable not found in $PATH''
   \<and> runProcess bare_host ''nonexistent-command-xyz'' [] short_timeout
       = failed_result ''Executable not found in $PATH''
   \<and> \<not> success (runProcess bare_host ''nonexistent-command-xyz'' [] short_timeout)
   \<and> Bun_spawn graceful_host [''node'', ''server.js''] (spawn_request graceful_host short_timeout)
       = Spawned graceful_child
   \<and> timer_fires short_timeout graceful_child
   \<and> read_failure (after_sigterm graceful_child) = None
   \<and> signal (runProcess graceful_host ''node'' [''server.js''] short_timeout) = Some ''SIGTERM''
   \<and> exitCode (runProcess graceful_host ''node'' [''server.js''] short_timeout) = Some 0"
proof -
  have a: "Bun_spawn bare_host [''nonexistent-command-xyz''] (spawn_request bare_host short_timeout)
       = Spawn_throws ''Executable not found in $PATH''"
    by (simp add: bare_host_def)
  have b: "Bun_spawn graceful_host [''node'', ''server.js'']
             (spawn_request graceful_host short_timeout) = Spawned graceful_child"
    by (simp add: graceful_host_def)
  have c: "timer_fires short_timeout graceful_child"
    by (simp add: timer_fires_def short_timeout_def graceful_child_def)
  have d: "read_failure (after_sigterm graceful_child) = None"
    by (simp add: graceful_child_def)
  have e: "code (after_sigterm graceful_child) = 0"
    by (simp add: graceful_child_def)
  show ?thesis
    using a b c d e
      runProcess_results [of bare_host "''nonexistent-command-xyz''" "[]" short_timeout]
      runProcess_results [of graceful_host "''node''" "[''server.js'']" short_timeout]
    by (simp add: failed_result_def)
qed

section \<open>SandboxDetector\<close>

text \<open>
  C5. \<^verbatim>\<open>detectSandboxMode\<close> always returns a mode, and never 'auto'. On Linux it
  returns 'bwrap' exactly when the probe for bwrap succeeds (\<^verbatim>\<open>which bwrap\<close> exits
  with 0) and 'off' otherwise; on macOS it returns 'sandbox-exec' exactly when the probe
  for sandbox-exec succeeds and 'off' otherwise; on every other platform it returns
  'off'. A probe that throws counts as not found.
\<close>

theorem detectSandboxMode_resolves_auto:
  "detectSandboxMode m \<noteq> ''auto''
   \<and> (platform m = ''linux''
        \<longrightarrow> commandExists m ''bwrap'' = (probe m [''which'', ''bwrap''] = Some 0)
            \<and> detectSandboxMode m = (if commandExists m ''bwrap'' then ''bwrap'' else ''off''))
   \<and> (platform m = ''darwin''
        \<longrightarrow> commandExists m ''sandbox-exec'' = (probe m [''which'', ''sandbox-exec''] = Some 0)
            \<and> detectSandboxMode m
                = (if commandExists m ''sandbox-exec'' then ''sandbox-exec'' else ''off''))
   \<and> (platform m \<noteq> ''linux'' \<and> platform m \<noteq> ''darwin'' \<longrightarrow> detectSandboxMode m = ''off'')"
proof -
  have t1: "trim ''bwrap'' \<noteq> []" by (simp add: trim_def is_js_space_def)
  have t2: "trim ''sandbox-exec'' \<noteq> []" by (simp add: trim_def is_js_space_def)
  show ?thesis
    using t1 t2
    by (auto simp: detectSandboxMode_def commandExists_def Let_def split: option.splits)
qed

theorem detectSandboxMode_resolves_auto_witness:
  "platform linux_with_bwrap = ''linux''
   \<and> probe linux_with_bwrap [''which'', ''bwrap''] = Some 0
   \<and> detectSandboxMode linux_with_bwrap = ''bwrap''
   \<and> platform mac_without_tool = ''darwin''
   \<and> probe mac_without_tool [''which'', ''sandbox-exec''] = Some 1
   \<and> detectSandboxMode mac_without_tool = ''off''
   \<and> platform windows_box = ''win32''
   \<and> detectSandboxMode windows_box = ''off''"
proof -
  have a: "platform linux_with_bwrap = ''linux''"
    "probe linux_with_bwrap [''which'', ''bwrap''] = Some 0"
    by (simp_all add: linux_with_bwrap_def)
  have b: "platform mac_without_tool = ''darwin''"
    "probe mac_without_tool [''which'', ''sandbox-exec''] = Some 1"
    by (simp_all add: mac_without_tool_def)
  have c: "platform windows_box = ''win32''" by (simp add: windows_box_def)
  show ?thesis
    using a b c
      detectSandboxMode_resolves_auto [of linux_with_bwrap]
      detectSandboxMode_resolves_auto [of mac_without_tool]
      detectSandboxMode_resolves_auto [of windows_box]
    by simp
qed

section \<open>Worker\<close>

text \<open>What a run does to the commit tracking, the engine binding and a cancelled status.\<close>

lemma perform_commitCount_step:
  "commitCount (perform w a) = commitCount w + length (commit_shas [a])"
proof (cases a)
  case (Emit ev)
  then show ?thesis by (cases ev) auto
next
  case Calls_worker_stop
  then show ?thesis by (simp add: stop_def split: option.splits)
qed

lemma commit_shas_Cons: "commit_shas (a # acts) = commit_shas [a] @ commit_shas acts"
proof (cases a)
  case (Emit ev)
  then show ?thesis by (cases ev) auto
next
  case Calls_worker_stop
  then show ?thesis by simp
qed

lemma perform_commitCount:
  "commitCount (foldl perform w acts) = commitCount w + length (commit_shas acts)"
proof (induction acts arbitrary: w)
  case Nil
  show ?case by simp
next
  case (Cons a acts)
  show ?case
    using Cons.IH [of "perform w a"] perform_commitCount_step [of w a]
      commit_shas_Cons [of a acts]
    by simp
qed

lemma perform_commitSha_step:
  "commitSha (perform w a)
     = (if commit_shas [a] = [] then commitSha w else Some (last (commit_shas [a])))"
proof (cases a)
  case (Emit ev)
  then show ?thesis by (cases ev) auto
next
  case Calls_worker_stop
  then show ?thesis by (simp add: stop_def split: option.splits)
qed

lemma perform_commitSha:
  "commitSha (foldl perform w acts)
     = (if commit_shas acts = [] then commitSha w else Some (last (commit_shas acts)))"
proof (induction acts arbitrary: w)
  case Nil
  show ?case by simp
next
  case (Cons a acts)
  show ?case
    using Cons.IH [of "perform w a"] perform_commitSha_step [of w a]
      commit_shas_Cons [of a acts]
    by (simp split: if_splits)
qed

lemma perform_engine_bound:
  "engine w \<noteq> None \<Longrightarrow> engine (foldl perform w acts) \<noteq> None"
proof (induction acts arbitrary: w)
  case Nil
  then show ?case by simp
next
  case (Cons a acts)
  have "engine (perform w a) \<noteq> None"
  proof (cases a)
    case (Emit ev)
    then show ?thesis using Cons.prems by (cases ev) auto
  next
    case Calls_worker_stop
    then show ?thesis using Cons.prems by (auto simp: stop_def)
  qed
  then show ?case using Cons.IH by simp
qed




lemma bound_worker_engine:
  "engine bound_worker = Some \<lparr> cancel_requested = False, pause_flag = False \<rparr>"
  by (simp add: bound_worker_def initialize_def new_Worker_def)

lemma start_bound:
  assumes "engine w = Some e"
  shows "\<exists>r. fst (start run w) = Inr r
           \<and> result_commitCount r = length (commit_shas (actions run))
           \<and> result_commitSha r = latest_sha (actions run)"
    and "engine (snd (start run w)) \<noteq> None"
    and "commitCount (snd (start run w)) = length (commit_shas (actions run))"
    and "commitSha (snd (start run w)) = latest_sha (actions run)"
proof -
  let ?w1 = "w\<lparr>status := Running, commitCount := 0, commitSha := None\<rparr>"
  have e: "engine (foldl perform ?w1 (actions run)) \<noteq> None"
    using assms by (intro perform_engine_bound) simp
  have c: "commitCount (foldl perform ?w1 (actions run)) = length (commit_shas (actions run))"
    using perform_commitCount [of ?w1 "actions run"] by simp
  have s: "commitSha (foldl perform ?w1 (actions run)) = latest_sha (actions run)"
    using perform_commitSha [of ?w1 "actions run"] by (simp add: latest_sha_def)
  show "\<exists>r. fst (start run w) = Inr r
           \<and> result_commitCount r = length (commit_shas (actions run))
           \<and> result_commitSha r = latest_sha (actions run)"
    using assms c s by (simp add: start_def Let_def split: option.splits)
  show "engine (snd (start run w)) \<noteq> None"
    using assms e by (simp add: start_def Let_def split: option.splits)
  show "commitCount (snd (start run w)) = length (commit_shas (actions run))"
    using assms c by (simp add: start_def Let_def split: option.splits)
  show "commitSha (snd (start run w)) = latest_sha (actions run)"
    using assms s by (simp add: start_def Let_def split: option.splits)
qed

text \<open>
  Two scenarios of src/parallel/worker.test.ts on the model: two auto-commit events in
  a run that succeeds, and one before the engine raises.
\<close>

lemma scenario_two_commits:
  "fst (start two_commit_run bound_worker)
     = Inr \<lparr> result_success = True, result_taskCompleted = True, result_commitCount = 2,
             result_commitSha = Some ''def456'', result_error = None \<rparr>
   \<and> display_commitSha (getDisplayState (snd (start two_commit_run bound_worker)))
       = Some ''def456''"
  by (simp add: start_def bound_worker_def initialize_def new_Worker_def two_commit_run_def
      getDisplayState_def)

lemma scenario_engine_raises:
  "fst (start failing_run bound_worker)
     = Inr \<lparr> result_success = False, result_taskCompleted = False, result_commitCount = 1,
             result_commitSha = Some ''errorsha'', result_error = Some ''boom'' \<rparr>"
  by (simp add: start_def bound_worker_def initialize_def new_Worker_def failing_run_def)

text \<open>
  C2. A \<^verbatim>\<open>start()\<close> on a Worker with a bound engine resolves to a result whose
  \<^verbatim>\<open>commitCount\<close> is the number of auto-commit events the engine emitted during that
  call and whose \<^verbatim>\<open>commitSha\<close> is the identifier of the latest of them (none when
  there was none), whatever the Worker had counted before; the display state shows the
  same identifier. A second \<^verbatim>\<open>start()\<close> on the same Worker gives the count and the
  identifier of the second run's events only.
\<close>

theorem start_counts_commits_of_this_run:
  assumes "engine w = Some e"
  shows "(\<exists>r. fst (start run w) = Inr r
            \<and> result_commitCount r = length (commit_shas (actions run))
            \<and> result_commitSha r = latest_sha (actions run))
         \<and> display_commitSha (getDisplayState (snd (start run w))) = latest_sha (actions run)
         \<and> (\<exists>r2. fst (start run2 (snd (start run w))) = Inr r2
            \<and> result_commitCount r2 = length (commit_shas (actions run2))
            \<and> result_commitSha r2 = latest_sha (actions run2))
         \<and> display_commitSha (getDisplayState (snd (start run2 (snd (start run w)))))
             = latest_sha (actions run2)"
proof -
  obtain e1 where e1: "engine (snd (start run w)) = Some e1"
    using start_bound(2) [OF assms, of run] by auto
  show ?thesis
    using start_bound(1) [OF assms, of run] start_bound(4) [OF assms, of run]
      start_bound(1) [OF e1, of run2] start_bound(4) [OF e1, of run2]
    by (simp add: getDisplayState_def)
qed

theorem start_counts_commits_of_this_run_witness:
  "engine bound_worker = Some \<lparr> cancel_requested = False, pause_flag = False \<rparr>
   \<and> (\<exists>r1. fst (start first_run bound_worker) = Inr r1
         \<and> result_commitCount r1 = 1 \<and> result_commitSha r1 = Some ''firstsha'')
   \<and> (\<exists>r2. fst (start second_run (snd (start first_run bound_worker))) = Inr r2
         \<and> result_commitCount r2 = 0 \<and> result_commitSha r2 = None)
   \<and> display_commitSha (getDisplayState
        (snd (start second_run (snd (start first_run bound_worker))))) = None"
proof -
  have a: "length (commit_shas (actions first_run)) = 1"
    "latest_sha (actions first_run) = Some ''firstsha''"
    "length (commit_shas (actions second_run)) = 0"
    "latest_sha (actions second_run) = None"
    by (simp_all add: first_run_def second_run_def latest_sha_def)
  show ?thesis
    using bound_worker_engine
      start_counts_commits_of_this_run [OF bound_worker_engine, of first_run second_run]
    unfolding a by simp
qed




text \<open>
  C7. On a Worker with no bound engine, \<^verbatim>\<open>start()\<close> fails with a message that
  contains 'not initialized' and changes nothing; \<^verbatim>\<open>stop()\<close> sets the status to
  cancelled, and a second \<^verbatim>\<open>stop()\<close> changes nothing more; \<^verbatim>\<open>pause()\<close> and
  \<^verbatim>\<open>resume()\<close> return and leave the Worker, and so its status, as it was.
\<close>

theorem worker_without_engine:
  assumes "engine w = None"
  shows "(\<exists>message. fst (start run w) = Inl message \<and> sublist ''not initialized'' message)
         \<and> snd (start run w) = w
         \<and> status (stop w) = Cancelled
         \<and> stop (stop w) = stop w
         \<and> pause w = w \<and> status (pause w) = status w
         \<and> resume w = w \<and> status (resume w) = status w"
  using assms by (simp add: start_def stop_def pause_def resume_def)

theorem worker_without_engine_witness:
  "engine (new_Worker sample_config 10) = None
   \<and> fst (start first_run (new_Worker sample_config 10)) = Inl ''not initialized''
   \<and> sublist ''not initialized'' ''not initialized''
   \<and> status (stop (new_Worker sample_config 10)) = Cancelled
   \<and> stop (stop (new_Worker sample_config 10)) = stop (new_Worker sample_config 10)
   \<and> status (pause (new_Worker sample_config 10)) = Idle
   \<and> status (resume (new_Worker sample_config 10)) = Idle"
proof -
  have e: "engine (new_Worker sample_config 10) = None" by (simp add: new_Worker_def)
  have i: "status (new_Worker sample_config 10) = Idle" by (simp add: new_Worker_def)
  have s: "fst (start first_run (new_Worker sample_config 10)) = Inl ''not initialized''"
    using e by (simp add: start_def)
  show ?thesis
    using e i s worker_without_engine [OF e, of first_run] by simp
qed

text \<open>
  C8. The display state of a freshly constructed Worker, before any \<^verbatim>\<open>start()\<close>, has
  the status idle, iteration 0, the empty output, 0 elapsed milliseconds and no commit
  identifier, and takes id, task, iteration cap, worktree path and branch name
  unchanged from the construction.
\<close>

theorem fresh_display_state:
  "getDisplayState (new_Worker cfg maxIter)
     = \<lparr> display_id = config_id cfg,
         display_status = Idle,
         display_task = config_task cfg,
         display_currentIteration = 0,
         display_maxIterations = maxIter,
         display_lastOutput = [],
         display_elapsedMs = 0,
         display_commitSha = None,
         display_worktreePath = worktreePath cfg,
         display_branchName = branchName cfg \<rparr>"
  by (simp add: getDisplayState_def new_Worker_def)

lemma unsubscribe_twice: "unsubscribe h (unsubscribe h w) = unsubscribe h w"
  by (simp add: unsubscribe_def)

lemma unsubscribe_engine_twice:
  "unsubscribe_engine h (unsubscribe_engine h w) = unsubscribe_engine h w"
  by (simp add: unsubscribe_engine_def)

lemma unsubscribe_repeated: "(unsubscribe h ^^ Suc n) w = unsubscribe h w"
  by (induction n) (simp_all add: unsubscribe_twice)

lemma unsubscribe_engine_repeated: "(unsubscribe_engine h ^^ Suc n) w = unsubscribe_engine h w"
  by (induction n) (simp_all add: unsubscribe_engine_twice)

text \<open>
  C9. The unsubscribe function returned by \<^verbatim>\<open>on()\<close> or \<^verbatim>\<open>onEngineEvent()\<close> can be
  called any number of times: it is a total function of the Worker, the first call
  removes the registration, and any number of calls leaves the Worker as the first call
  left it; so a second and a third call change nothing.
\<close>

theorem unsubscribe_idempotent:
  "(unsubscribe h ^^ Suc n) w = unsubscribe h w
   \<and> (unsubscribe_engine h ^^ Suc n) w = unsubscribe_engine h w
   \<and> unsubscribe h (unsubscribe h (unsubscribe h w)) = unsubscribe h w
   \<and> unsubscribe_engine h (unsubscribe_engine h (unsubscribe_engine h w))
       = unsubscribe_engine h w
   \<and> fst (on w) \<in> set (listeners (snd (on w)))
   \<and> fst (on w) \<notin> set (listeners (unsubscribe (fst (on w)) (snd (on w))))
   \<and> fst (onEngineEvent w) \<in> set (engineListeners (snd (onEngineEvent w)))
   \<and> fst (onEngineEvent w)
       \<notin> set (engineListeners
                (unsubscribe_engine (fst (onEngineEvent w)) (snd (onEngineEvent w))))"
proof (intro conjI)
  show "(unsubscribe h ^^ Suc n) w = unsubscribe h w"
    by (rule unsubscribe_repeated)
  show "(unsubscribe_engine h ^^ Suc n) w = unsubscribe_engine h w"
    by (rule unsubscribe_engine_repeated)
  show "unsubscribe h (unsubscribe h (unsubscribe h w)) = unsubscribe h w"
    by (simp only: unsubscribe_twice)
  show "unsubscribe_engine h (unsubscribe_engine h (unsubscribe_engine h w))
          = unsubscribe_engine h w"
    by (simp only: unsubscribe_engine_twice)
  show "fst (on w) \<in> set (listeners (snd (on w)))"
    by (simp add: on_def)
  show "fst (on w) \<notin> set (listeners (unsubscribe (fst (on w)) (snd (on w))))"
    by (simp add: unsubscribe_def)
  show "fst (onEngineEvent w) \<in> set (engineListeners (snd (onEngineEvent w)))"
    by (simp add: onEngineEvent_def)
  show "fst (onEngineEvent w)
          \<notin> set (engineListeners
                   (unsubscribe_engine (fst (onEngineEvent w)) (snd (onEngineEvent w))))"
    by (simp add: unsubscribe_engine_def)
qed

end
